theory Spec2Isabelle
  imports Complex_Main
begin

section \<open>JavaScript values, thrown values and HTTP responses\<close>

text \<open>
  The values a parsed JSON body or a rejected promise can carry. Numbers are kept by
  their value (a finite double is a rational); only their being zero is ever looked at.
  An object is the list of its own properties, each name once.
\<close>

datatype jsval =
    Undefined
  | Null
  | Boolean bool
  | Number rat
  | String string
  | Array "jsval list"
  | Object "(string \<times> jsval) list"

text \<open>
  What a \<^verbatim>\<open>throw\<close> or a rejected promise carries. \<open>Error m\<close> is
  \<^verbatim>\<open>new Error(m)\<close>. \<open>SyntaxError\<close> and \<open>TypeError\<close> are the engine's own errors
  (instances of \<^verbatim>\<open>Error\<close> whose message is the engine's text).
  \<open>PrismaClientKnownRequestError code message\<close> is the store client's classified error,
  \<open>PrismaClientValidationError\<close> its rejection of an ill-typed argument, and
  \<open>Thrown v\<close> any other value.
\<close>

datatype thrown =
    Error string
  | SyntaxError
  | TypeError
  | PrismaClientKnownRequestError string string
  | PrismaClientValidationError
  | Thrown jsval

text \<open>\<^verbatim>\<open>error instanceof Error\<close>: every error class above extends \<^verbatim>\<open>Error\<close>.\<close>

fun instanceof_Error :: "thrown \<Rightarrow> bool" where
  "instanceof_Error (Thrown v) = False"
| "instanceof_Error e = True"

text \<open>
  \<^verbatim>\<open>error.message\<close>, where the model knows it: the engine's and the client's validation
  texts are not modelled (\<open>None\<close>); neither is ever the handler's sentinel.
\<close>

fun message :: "thrown \<Rightarrow> string option" where
  "message (Error m) = Some m"
| "message (PrismaClientKnownRequestError code m) = Some m"
| "message e = None"

text \<open>JavaScript truthiness, as \<^verbatim>\<open>!x\<close> reads it.\<close>

fun truthy :: "jsval \<Rightarrow> bool" where
  "truthy Undefined = False"
| "truthy Null = False"
| "truthy (Boolean b) = b"
| "truthy (Number n) = (n \<noteq> 0)"
| "truthy (String s) = (s \<noteq> [])"
| "truthy (Array xs) = True"
| "truthy (Object ps) = True"

text \<open>
  Property access \<^verbatim>\<open>v.k\<close> (and the destructuring \<^verbatim>\<open>const { k } = v\<close>): a TypeError on
  \<^verbatim>\<open>undefined\<close> and \<^verbatim>\<open>null\<close>, the property or \<^verbatim>\<open>undefined\<close> on an object, and
  \<^verbatim>\<open>undefined\<close> on the other values (none of the property names read by this program is
  a built-in property of a string, number, boolean or array).
\<close>

fun get_prop :: "jsval \<Rightarrow> string \<Rightarrow> thrown + jsval" where
  "get_prop Undefined k = Inl TypeError"
| "get_prop Null k = Inl TypeError"
| "get_prop (Object ps) k = (case map_of ps k of None \<Rightarrow> Inr Undefined | Some v \<Rightarrow> Inr v)"
| "get_prop v k = Inr Undefined"

record like_comment_response =
  liked :: bool
  likeCount :: nat

datatype response_body =
    ErrorBody string
  | LikeBody like_comment_response

record http_response =
  status :: nat
  body :: response_body

definition json_response :: "response_body \<Rightarrow> nat \<Rightarrow> http_response" where
  "json_response b st = \<lparr>status = st, body = b\<rparr>"

section \<open>The relational store\<close>

text \<open>
  The tables the handler touches, as lists of rows. Only the columns the handler reads or
  writes are kept. \<open>p_engagementScore\<close> is an unbounded integer: the column's width is
  declared in the schema, which is not part of the sources.
\<close>

record comment =
  c_id :: string
  c_postId :: string
  c_authorId :: string

record commentLike =
  l_commentId :: string
  l_userId :: string

record post =
  p_id :: string
  p_engagementScore :: int

record notification =
  n_userId :: string
  n_message :: string
  n_type :: string
  n_commentId :: string
  n_actorId :: string

record store =
  comments :: "comment list"
  commentLikes :: "commentLike list"
  posts :: "post list"
  notifications :: "notification list"

text \<open>The calls made on the store client, in the order they are issued.\<close>

datatype db_call =
    Transaction
  | CommentFindUnique jsval
  | CommentLikeFindUnique string string
  | CommentLikeDelete string string
  | PostUpdate string int
  | CommentLikeCreate string string
  | NotificationCreate notification
  | CommentLikeCount string
  | Commit
  | Rollback

text \<open>
  A failure of the store that the tables above do not determine (a foreign key of the
  schema, a lost connection, a timeout) is an input: \<open>faults c = Some e\<close> makes the call
  \<open>c\<close> throw \<open>e\<close>.
\<close>

type_synonym faults = "db_call \<Rightarrow> thrown option"

definition no_faults :: faults where
  "no_faults = (\<lambda>c. None)"

text \<open>
  A step inside a transaction: it reads and writes the uncommitted tables and extends the
  list of calls, and it either throws or returns a value.
\<close>

type_synonym 'a tx = "store \<times> db_call list \<Rightarrow> (thrown + 'a) \<times> store \<times> db_call list"

definition tx_bind :: "'a tx \<Rightarrow> ('a \<Rightarrow> 'b tx) \<Rightarrow> 'b tx" where
  "tx_bind m k = (\<lambda>st. case m st of
       (Inl e, st') \<Rightarrow> (Inl e, st')
     | (Inr v, st') \<Rightarrow> k v st')"

definition tx_return :: "'a \<Rightarrow> 'a tx" where
  "tx_return v = (\<lambda>st. (Inr v, st))"

definition tx_throw :: "thrown \<Rightarrow> 'a tx" where
  "tx_throw e = (\<lambda>st. (Inl e, st))"

definition query :: "faults \<Rightarrow> db_call \<Rightarrow> (store \<Rightarrow> thrown + 'a \<times> store) \<Rightarrow> 'a tx" where
  "query f c run = (\<lambda>(s, calls).
     case f c of
       Some e \<Rightarrow> (Inl e, s, calls @ [c])
     | None \<Rightarrow> (case run s of
         Inl e \<Rightarrow> (Inl e, s, calls @ [c])
       | Inr (v, s') \<Rightarrow> (Inr v, s', calls @ [c])))"

definition is_like :: "string \<Rightarrow> string \<Rightarrow> commentLike \<Rightarrow> bool" where
  "is_like commentId userId l = (l_commentId l = commentId \<and> l_userId l = userId)"

definition record_not_found :: thrown where
  "record_not_found = PrismaClientKnownRequestError ''P2025'' ''Record not found''"

definition unique_violation :: thrown where
  "unique_violation =
     PrismaClientKnownRequestError ''P2002'' ''Unique constraint failed''"

text \<open>
  \<^verbatim>\<open>tx.comment.findUnique({ where: { id } })\<close>. The client rejects an \<^verbatim>\<open>id\<close> that is not
  a string before it queries.
\<close>

definition comment_findUnique :: "faults \<Rightarrow> jsval \<Rightarrow> comment option tx" where
  "comment_findUnique f commentId = query f (CommentFindUnique commentId) (\<lambda>s.
     case commentId of
       String cid \<Rightarrow> Inr (find (\<lambda>c. c_id c = cid) (comments s), s)
     | _ \<Rightarrow> Inl PrismaClientValidationError)"

text \<open>\<^verbatim>\<open>tx.commentLike.findUnique({ where: { commentId_userId: { commentId, userId } } })\<close>\<close>

definition commentLike_findUnique :: "faults \<Rightarrow> string \<Rightarrow> string \<Rightarrow> commentLike option tx" where
  "commentLike_findUnique f commentId userId =
     query f (CommentLikeFindUnique commentId userId) (\<lambda>s.
       Inr (find (is_like commentId userId) (commentLikes s), s))"

text \<open>
  \<^verbatim>\<open>tx.commentLike.delete\<close> by the compound unique key: the rows with that key go
  (P2025 when there is none).
\<close>

definition commentLike_delete :: "faults \<Rightarrow> string \<Rightarrow> string \<Rightarrow> unit tx" where
  "commentLike_delete f commentId userId =
     query f (CommentLikeDelete commentId userId) (\<lambda>s.
       if find (is_like commentId userId) (commentLikes s) = None then Inl record_not_found
       else Inr ((), s\<lparr>commentLikes :=
              filter (\<lambda>l. \<not> is_like commentId userId l) (commentLikes s)\<rparr>))"

text \<open>
  \<^verbatim>\<open>tx.commentLike.create\<close>: the compound key \<^verbatim>\<open>commentId_userId\<close> is unique, so a second
  row for the pair is refused (P2002).
\<close>

definition commentLike_create :: "faults \<Rightarrow> string \<Rightarrow> string \<Rightarrow> unit tx" where
  "commentLike_create f commentId userId =
     query f (CommentLikeCreate commentId userId) (\<lambda>s.
       if find (is_like commentId userId) (commentLikes s) \<noteq> None then Inl unique_violation
       else Inr ((), s\<lparr>commentLikes :=
              commentLikes s @ [\<lparr>l_commentId = commentId, l_userId = userId\<rparr>]\<rparr>))"

text \<open>
  \<^verbatim>\<open>tx.post.update({ where: { id }, data: { engagementScore: { increment } } })\<close>, with
  a decrement as a negative \<open>delta\<close> (P2025 when no post has that id).
\<close>

definition post_update :: "faults \<Rightarrow> string \<Rightarrow> int \<Rightarrow> unit tx" where
  "post_update f postId delta = query f (PostUpdate postId delta) (\<lambda>s.
     if find (\<lambda>p. p_id p = postId) (posts s) = None then Inl record_not_found
     else Inr ((), s\<lparr>posts :=
            map (\<lambda>p. if p_id p = postId
                      then p\<lparr>p_engagementScore := p_engagementScore p + delta\<rparr> else p)
                (posts s)\<rparr>))"

definition notification_create :: "faults \<Rightarrow> notification \<Rightarrow> unit tx" where
  "notification_create f n = query f (NotificationCreate n) (\<lambda>s.
     Inr ((), s\<lparr>notifications := notifications s @ [n]\<rparr>))"

text \<open>\<^verbatim>\<open>tx.commentLike.count({ where: { commentId } })\<close>\<close>

definition commentLike_count :: "faults \<Rightarrow> string \<Rightarrow> nat tx" where
  "commentLike_count f commentId = query f (CommentLikeCount commentId) (\<lambda>s.
     Inr (length (filter (\<lambda>l. l_commentId l = commentId) (commentLikes s)), s))"

text \<open>
  \<^verbatim>\<open>prisma.$transaction(async (tx) => ...)\<close>: the callback runs on the tables of \<open>s\<close>;
  its writes are kept when it returns and the commit succeeds, and dropped when anything
  throws.
\<close>

definition transaction ::
  "faults \<Rightarrow> 'a tx \<Rightarrow> store \<Rightarrow> (thrown + 'a) \<times> store \<times> db_call list" where
  "transaction f callback s =
     (case f Transaction of
        Some e \<Rightarrow> (Inl e, s, [Transaction])
      | None \<Rightarrow> (case callback (s, [Transaction]) of
          (Inl e, s', calls) \<Rightarrow> (Inl e, s, calls @ [Rollback])
        | (Inr v, s', calls) \<Rightarrow> (case f Commit of
            Some e \<Rightarrow> (Inl e, s, calls @ [Commit])
          | None \<Rightarrow> (Inr v, s', calls @ [Commit]))))"

section \<open>The like-comment route\<close>

definition COMMENT_LIKE :: int where
  "COMMENT_LIKE = 1"

text \<open>The callback of the transaction (route.ts, lines 47 to 117), for a string id.\<close>

definition toggle :: "faults \<Rightarrow> string \<Rightarrow> string \<Rightarrow> like_comment_response tx" where
  "toggle f commentId userId =
     tx_bind (comment_findUnique f (String commentId)) (\<lambda>found.
       case found of
         None \<Rightarrow> tx_throw (Error ''COMMENT_NOT_FOUND'')
       | Some comment \<Rightarrow>
           tx_bind (commentLike_findUnique f commentId userId) (\<lambda>existingLike.
           tx_bind
             (case existingLike of
                Some l \<Rightarrow>
                  tx_bind (commentLike_delete f commentId userId) (\<lambda>_.
                  tx_bind (post_update f (c_postId comment) (- COMMENT_LIKE)) (\<lambda>_.
                  tx_return False))
              | None \<Rightarrow>
                  tx_bind (commentLike_create f commentId userId) (\<lambda>_.
                  tx_bind (post_update f (c_postId comment) COMMENT_LIKE) (\<lambda>_.
                  tx_bind
                    (if c_authorId comment \<noteq> userId
                     then notification_create f
                            \<lparr>n_userId = c_authorId comment,
                             n_message = ''Your comment received a new like.'',
                             n_type = ''COMMENT_LIKE'',
                             n_commentId = c_id comment,
                             n_actorId = userId\<rparr>
                     else tx_return ()) (\<lambda>_.
                  tx_return True))))
             (\<lambda>liked.
           tx_bind (commentLike_count f commentId) (\<lambda>likeCount.
           tx_return \<lparr>liked = liked, likeCount = likeCount\<rparr>))))"

text \<open>
  The callback for the value the handler passes on: \<^verbatim>\<open>commentId\<close> is only cast to a
  string, so a truthy value of another type reaches the first query, which the client
  rejects.
\<close>

definition toggle_callback :: "faults \<Rightarrow> jsval \<Rightarrow> string \<Rightarrow> like_comment_response tx" where
  "toggle_callback f commentId userId =
     (case commentId of
        String cid \<Rightarrow> toggle f cid userId
      | _ \<Rightarrow> tx_bind (comment_findUnique f commentId) (\<lambda>_. tx_throw PrismaClientValidationError))"

text \<open>
  A request, as the handler sees it: \<open>req_json\<close> is what \<^verbatim>\<open>await req.json()\<close> gives
  (\<open>None\<close> when the body is not JSON and the call rejects with a SyntaxError), and
  \<open>authenticated\<close> is what \<^verbatim>\<open>await getAuthenticatedUserId()\<close> resolves to: the id of
  the current user, or no user. The helper (helpers/auth/user) is not among the sources,
  so its result is an input.
\<close>

record request =
  req_json :: "jsval option"
  authenticated :: "string option"

text \<open>What one call of the handler leaves behind.\<close>

record handled =
  response :: http_response
  store_after :: store
  store_calls :: "db_call list"
  console_error :: "thrown list"

text \<open>The \<^verbatim>\<open>try\<close> block (lines 29 to 120): a response, or the value thrown.\<close>

definition try_block ::
  "request \<Rightarrow> faults \<Rightarrow> store \<Rightarrow> (thrown + http_response) \<times> store \<times> db_call list" where
  "try_block req f s =
     (case req_json req of
        None \<Rightarrow> (Inl SyntaxError, s, [])
      | Some parsed \<Rightarrow>
         (case get_prop parsed ''commentId'' of
            Inl e \<Rightarrow> (Inl e, s, [])
          | Inr commentId \<Rightarrow>
             if \<not> truthy commentId
             then (Inr (json_response (ErrorBody ''Missing commentId'') 400), s, [])
             else (case authenticated req of
                None \<Rightarrow> (Inr (json_response (ErrorBody ''Authentication required'') 401), s, [])
              | Some userId \<Rightarrow>
                 if userId = []
                 then (Inr (json_response (ErrorBody ''Authentication required'') 401), s, [])
                 else (case transaction f (toggle_callback f commentId userId) s of
                    (Inl e, s', calls) \<Rightarrow> (Inl e, s', calls)
                  | (Inr result, s', calls) \<Rightarrow>
                      (Inr (json_response (LikeBody result) 200), s', calls)))))"

text \<open>The \<^verbatim>\<open>catch\<close> block (lines 121 to 149): the response and what is logged.\<close>

definition catch_block :: "thrown \<Rightarrow> http_response \<times> thrown list" where
  "catch_block e =
     (if instanceof_Error e \<and> message e = Some ''COMMENT_NOT_FOUND''
      then (json_response (ErrorBody ''Comment not found'') 404, [])
      else (case e of
          PrismaClientKnownRequestError code m \<Rightarrow>
            if code = ''P2025''
            then (json_response (ErrorBody ''Comment or post not found'') 404, [])
            else if code = ''P2003''
            then (json_response (ErrorBody ''Invalid comment or user reference'') 400, [])
            else (json_response (ErrorBody ''Internal Server Error'') 500, [e])
        | _ \<Rightarrow> (json_response (ErrorBody ''Internal Server Error'') 500, [e])))"

definition POST :: "request \<Rightarrow> faults \<Rightarrow> store \<Rightarrow> handled" where
  "POST req f s =
     (case try_block req f s of
        (Inr r, s', calls) \<Rightarrow>
          \<lparr>response = r, store_after = s', store_calls = calls, console_error = []\<rparr>
      | (Inl e, s', calls) \<Rightarrow>
          (case catch_block e of (r, logged) \<Rightarrow>
            \<lparr>response = r, store_after = s', store_calls = calls, console_error = logged\<rparr>))"

text \<open>Requests served one after the other, each on the store the previous one left.\<close>

fun serve :: "(request \<times> faults) list \<Rightarrow> store \<Rightarrow> handled list \<times> store" where
  "serve [] s = ([], s)"
| "serve ((req, f) # rest) s =
     (let h = POST req f s; (hs, s') = serve rest (store_after h) in (h # hs, s'))"

section \<open>Observations on stores, requests and responses\<close>

definition engagementScore :: "store \<Rightarrow> string \<Rightarrow> int option" where
  "engagementScore s postId =
     map_option p_engagementScore (find (\<lambda>p. p_id p = postId) (posts s))"

definition bump :: "string \<Rightarrow> int \<Rightarrow> post list \<Rightarrow> post list" where
  "bump postId delta ps =
     map (\<lambda>p. if p_id p = postId
               then p\<lparr>p_engagementScore := p_engagementScore p + delta\<rparr> else p) ps"

definition like_notification :: "comment \<Rightarrow> string \<Rightarrow> notification" where
  "like_notification c uid =
     \<lparr>n_userId = c_authorId c, n_message = ''Your comment received a new like.'',
      n_type = ''COMMENT_LIKE'', n_commentId = c_id c, n_actorId = uid\<rparr>"

text \<open>The request names, by a string id, a comment of \<open>s\<close> that belongs to the post.\<close>

definition targets_post :: "store \<Rightarrow> string \<Rightarrow> request \<Rightarrow> bool" where
  "targets_post s postId req =
     (case req_json req of
        None \<Rightarrow> False
      | Some parsed \<Rightarrow>
         (case get_prop parsed ''commentId'' of
            Inr (String cid) \<Rightarrow>
              (case find (\<lambda>c. c_id c = cid) (comments s) of
                 Some c \<Rightarrow> c_postId c = postId
               | None \<Rightarrow> False)
          | _ \<Rightarrow> False))"

definition is_like_response :: "bool \<Rightarrow> handled \<Rightarrow> bool" where
  "is_like_response b h =
     (case body (response h) of LikeBody r \<Rightarrow> liked r = b | ErrorBody m \<Rightarrow> False)"

definition likes :: "handled list \<Rightarrow> nat" where
  "likes hs = length (filter (is_like_response True) hs)"

definition unlikes :: "handled list \<Rightarrow> nat" where
  "unlikes hs = length (filter (is_like_response False) hs)"

text \<open>What one response adds to the score: 1 for a like, -1 for an unlike, else 0.\<close>

definition step_delta :: "handled \<Rightarrow> int" where
  "step_delta h = (if is_like_response True h then 1 else 0)
                  - (if is_like_response False h then 1 else 0)"

text \<open>The calls that change a like row or an engagement score.\<close>

fun is_like_or_score_write :: "db_call \<Rightarrow> bool" where
  "is_like_or_score_write (CommentLikeCreate commentId userId) = True"
| "is_like_or_score_write (CommentLikeDelete commentId userId) = True"
| "is_like_or_score_write (PostUpdate postId delta) = True"
| "is_like_or_score_write c = False"

section \<open>Sending email\<close>

text \<open>
  The message object handed to the provider. \<^verbatim>\<open>text || undefined\<close> drops an empty text.
\<close>

record mail_data =
  m_to :: string
  m_from :: string
  m_subject :: string
  m_text :: "string option"
  m_html :: string

definition or_undefined :: "string option \<Rightarrow> string option" where
  "or_undefined t = (case t of None \<Rightarrow> None | Some x \<Rightarrow> if x = [] then None else Some x)"

text \<open>
  \<^verbatim>\<open>sendEmail\<close>. The provider call \<^verbatim>\<open>sgMail.send\<close> is a parameter: it resolves (\<open>None\<close>)
  or rejects with a value (\<open>Some e\<close>). The result is what the caller's \<^verbatim>\<open>await\<close> sees,
  with the values printed by \<^verbatim>\<open>console.table\<close>. The \<^verbatim>\<open>catch\<close> block evaluates
  \<^verbatim>\<open>e.response.body.errors\<close>, and each property access can throw.
\<close>

definition sendEmail ::
  "(mail_data \<Rightarrow> jsval option) \<Rightarrow> string \<Rightarrow> string \<Rightarrow> string \<Rightarrow> string \<Rightarrow> string option
     \<Rightarrow> (thrown + unit) \<times> jsval list" where
  "sendEmail sgMail_send fromEmail to subject html text =
     (case sgMail_send \<lparr>m_to = to, m_from = fromEmail, m_subject = subject,
                        m_text = or_undefined text, m_html = html\<rparr> of
        None \<Rightarrow> (Inr (), [])
      | Some e \<Rightarrow>
         (case get_prop e ''response'' of
            Inl t \<Rightarrow> (Inl t, [])
          | Inr resp \<Rightarrow>
             (case get_prop resp ''body'' of
                Inl t \<Rightarrow> (Inl t, [])
              | Inr b \<Rightarrow>
                 (case get_prop b ''errors'' of
                    Inl t \<Rightarrow> (Inl t, [])
                  | Inr errors \<Rightarrow> (Inr (), [errors])))))"

text \<open>
  \<^verbatim>\<open>sendNodeMailerEmail\<close>: \<^verbatim>\<open>transporter.verify()\<close> and \<^verbatim>\<open>transporter.sendMail\<close> are
  parameters in the same way; the \<^verbatim>\<open>catch\<close> block prints the value with
  \<^verbatim>\<open>console.error\<close>.
\<close>

definition sendNodeMailerEmail ::
  "jsval option \<Rightarrow> (mail_data \<Rightarrow> jsval option) \<Rightarrow> string \<Rightarrow> string \<Rightarrow> string \<Rightarrow> string
     \<Rightarrow> string option \<Rightarrow> (thrown + unit) \<times> jsval list" where
  "sendNodeMailerEmail verify sendMail fromEmail to subject html text =
     (case verify of
        Some err \<Rightarrow> (Inr (), [err])
      | None \<Rightarrow>
         (case sendMail \<lparr>m_to = to, m_from = fromEmail, m_subject = subject,
                         m_text = or_undefined text, m_html = html\<rparr> of
            Some err \<Rightarrow> (Inr (), [err])
          | None \<Rightarrow> (Inr (), [])))"

section \<open>A small store and a request, for concrete runs\<close>

text \<open>
  One comment \<open>C1\<close> by \<open>U1\<close> on the post \<open>P1\<close>, whose score is 5, with no like yet;
  the same store after \<open>U2\<close> has liked the comment; and the request of a user for a
  comment.
\<close>

definition example_store :: store where
  "example_store =
     \<lparr>comments = [\<lparr>c_id = ''C1'', c_postId = ''P1'', c_authorId = ''U1''\<rparr>],
      commentLikes = [],
      posts = [\<lparr>p_id = ''P1'', p_engagementScore = 5\<rparr>],
      notifications = []\<rparr>"

definition example_store_liked :: store where
  "example_store_liked =
     \<lparr>comments = [\<lparr>c_id = ''C1'', c_postId = ''P1'', c_authorId = ''U1''\<rparr>],
      commentLikes = [\<lparr>l_commentId = ''C1'', l_userId = ''U2''\<rparr>],
      posts = [\<lparr>p_id = ''P1'', p_engagementScore = 6\<rparr>],
      notifications =
        [\<lparr>n_userId = ''U1'', n_message = ''Your comment received a new like.'',
          n_type = ''COMMENT_LIKE'', n_commentId = ''C1'', n_actorId = ''U2''\<rparr>]\<rparr>"

definition like_request :: "string \<Rightarrow> string \<Rightarrow> request" where
  "like_request cid uid =
     \<lparr>req_json = Some (Object [(''commentId'', String cid)]), authenticated = Some uid\<rparr>"

section \<open>Statuses of the handler\<close>


lemma catch_block_status:
  "status (fst (catch_block e)) \<in> {400, 404, 500}"
  by (cases e) (simp_all add: catch_block_def json_response_def)

lemma POST_status_cases:
  "status (response (POST req f s)) \<in> {200, 400, 401, 404, 500}"
proof (cases "try_block req f s")
  case (fields r s' calls)
  show ?thesis
  proof (cases r)
    case (Inl e)
    with fields catch_block_status [of e] show ?thesis
      by (auto simp: POST_def split: prod.splits)
  next
    case (Inr resp)
    with fields have "status resp \<in> {200, 400, 401}"
      by (auto simp: try_block_def json_response_def
               split: option.splits sum.splits if_splits prod.splits)
    with fields Inr show ?thesis by (auto simp: POST_def)
  qed
qed

lemma try_block_unparsed:
  "req_json req = None \<Longrightarrow> try_block req f s = (Inl SyntaxError, s, [])"
  by (simp add: try_block_def)

lemma try_block_null:
  "req_json req = Some Null \<Longrightarrow> try_block req f s = (Inl TypeError, s, [])"
  by (simp add: try_block_def)

text \<open>
  C10. A request whose body is not JSON (\<^verbatim>\<open>req.json()\<close> rejects), or whose body is the
  JSON value \<^verbatim>\<open>null\<close> (the destructuring throws), gets the generic response with status
  500, not the 400 of a missing commentId, and no call reaches the store client. The status
  of every response of the handler is one of 200, 400, 401, 404 and 500.
\<close>

theorem POST_unparseable_body:
  "(req_json req = None \<or> req_json req = Some Null \<longrightarrow>
      response (POST req f s) = json_response (ErrorBody ''Internal Server Error'') 500
      \<and> status (response (POST req f s)) = 500
      \<and> store_calls (POST req f s) = []
      \<and> store_after (POST req f s) = s)
   \<and> status (response (POST req f s)) \<in> {200, 400, 401, 404, 500}"
  using POST_status_cases [of req f s]
  by (auto simp: POST_def try_block_unparsed try_block_null catch_block_def json_response_def)

theorem POST_unparseable_body_witness:
  "req_json \<lparr>req_json = None, authenticated = Some ''u2''\<rparr> = None
   \<and> status (response (POST \<lparr>req_json = None, authenticated = Some ''u2''\<rparr> no_faults
        \<lparr>comments = [], commentLikes = [], posts = [], notifications = []\<rparr>)) = 500
   \<and> store_calls (POST \<lparr>req_json = None, authenticated = Some ''u2''\<rparr> no_faults
        \<lparr>comments = [], commentLikes = [], posts = [], notifications = []\<rparr>) = []"
  using POST_unparseable_body [of "\<lparr>req_json = None, authenticated = Some ''u2''\<rparr>" no_faults
        "\<lparr>comments = [], commentLikes = [], posts = [], notifications = []\<rparr>"]
  by (simp add: json_response_def)

section \<open>The transaction, step by step\<close>

lemma tx_bind_Inr:
  "tx_bind m k st = (Inr v, st') \<longleftrightarrow> (\<exists>w st1. m st = (Inr w, st1) \<and> k w st1 = (Inr v, st'))"
  by (auto simp: tx_bind_def split: prod.splits sum.splits)

lemma tx_return_Inr: "tx_return v st = (Inr w, st') \<longleftrightarrow> w = v \<and> st' = st"
  by (auto simp: tx_return_def)

lemma tx_throw_Inr: "tx_throw e st = (Inr w, st') \<longleftrightarrow> False"
  by (simp add: tx_throw_def)

lemma query_Inr:
  "query f c run (s, calls) = (Inr v, s', calls') \<longleftrightarrow>
     f c = None \<and> run s = Inr (v, s') \<and> calls' = calls @ [c]"
  by (auto simp: query_def split: option.splits sum.splits)

lemma comment_findUnique_Inr:
  "comment_findUnique f (String cid) (s, calls) = (Inr r, s', calls') \<longleftrightarrow>
     f (CommentFindUnique (String cid)) = None \<and> r = find (\<lambda>c. c_id c = cid) (comments s)
     \<and> s' = s \<and> calls' = calls @ [CommentFindUnique (String cid)]"
  by (auto simp: comment_findUnique_def query_Inr)

lemma commentLike_findUnique_Inr:
  "commentLike_findUnique f cid uid (s, calls) = (Inr r, s', calls') \<longleftrightarrow>
     f (CommentLikeFindUnique cid uid) = None \<and> r = find (is_like cid uid) (commentLikes s)
     \<and> s' = s \<and> calls' = calls @ [CommentLikeFindUnique cid uid]"
  by (auto simp: commentLike_findUnique_def query_Inr)

lemma commentLike_delete_Inr:
  "commentLike_delete f cid uid (s, calls) = (Inr r, s', calls') \<longleftrightarrow>
     f (CommentLikeDelete cid uid) = None \<and> find (is_like cid uid) (commentLikes s) \<noteq> None
     \<and> s' = s\<lparr>commentLikes := filter (\<lambda>l. \<not> is_like cid uid l) (commentLikes s)\<rparr>
     \<and> calls' = calls @ [CommentLikeDelete cid uid]"
  by (auto simp: commentLike_delete_def query_Inr)

lemma commentLike_create_Inr:
  "commentLike_create f cid uid (s, calls) = (Inr r, s', calls') \<longleftrightarrow>
     f (CommentLikeCreate cid uid) = None \<and> find (is_like cid uid) (commentLikes s) = None
     \<and> s' = s\<lparr>commentLikes := commentLikes s @ [\<lparr>l_commentId = cid, l_userId = uid\<rparr>]\<rparr>
     \<and> calls' = calls @ [CommentLikeCreate cid uid]"
  by (auto simp: commentLike_create_def query_Inr)

lemma post_update_Inr:
  "post_update f pid d (s, calls) = (Inr r, s', calls') \<longleftrightarrow>
     f (PostUpdate pid d) = None \<and> find (\<lambda>p. p_id p = pid) (posts s) \<noteq> None
     \<and> s' = s\<lparr>posts := bump pid d (posts s)\<rparr>
     \<and> calls' = calls @ [PostUpdate pid d]"
  by (auto simp: post_update_def query_Inr bump_def)

lemma notification_create_Inr:
  "notification_create f n (s, calls) = (Inr r, s', calls') \<longleftrightarrow>
     f (NotificationCreate n) = None
     \<and> s' = s\<lparr>notifications := notifications s @ [n]\<rparr>
     \<and> calls' = calls @ [NotificationCreate n]"
  by (auto simp: notification_create_def query_Inr)

lemma commentLike_count_Inr:
  "commentLike_count f cid (s, calls) = (Inr r, s', calls') \<longleftrightarrow>
     f (CommentLikeCount cid) = None
     \<and> r = length (filter (\<lambda>l. l_commentId l = cid) (commentLikes s))
     \<and> s' = s \<and> calls' = calls @ [CommentLikeCount cid]"
  by (auto simp: commentLike_count_def query_Inr)

lemmas tx_Inr = tx_bind_Inr tx_return_Inr tx_throw_Inr comment_findUnique_Inr
  commentLike_findUnique_Inr commentLike_delete_Inr commentLike_create_Inr
  post_update_Inr notification_create_Inr commentLike_count_Inr

lemma toggle_Inr:
  assumes "toggle f cid uid (s, calls) = (Inr r, s', calls')"
  shows "\<exists>c. find (\<lambda>c. c_id c = cid) (comments s) = Some c
     \<and> find (\<lambda>p. p_id p = c_postId c) (posts s) \<noteq> None
     \<and> comments s' = comments s
     \<and> likeCount r = length (filter (\<lambda>l. l_commentId l = cid) (commentLikes s'))
     \<and> liked r = (find (is_like cid uid) (commentLikes s) = None)
     \<and> (if liked r
        then commentLikes s' = commentLikes s @ [\<lparr>l_commentId = cid, l_userId = uid\<rparr>]
           \<and> posts s' = bump (c_postId c) 1 (posts s)
           \<and> notifications s' = notifications s @
               (if c_authorId c \<noteq> uid then [like_notification c uid] else [])
           \<and> calls' = calls @ [CommentFindUnique (String cid), CommentLikeFindUnique cid uid,
                 CommentLikeCreate cid uid, PostUpdate (c_postId c) 1]
               @ (if c_authorId c \<noteq> uid
                  then [NotificationCreate (like_notification c uid)] else [])
               @ [CommentLikeCount cid]
        else commentLikes s' = filter (\<lambda>l. \<not> is_like cid uid l) (commentLikes s)
           \<and> posts s' = bump (c_postId c) (- 1) (posts s)
           \<and> notifications s' = notifications s
           \<and> calls' = calls @ [CommentFindUnique (String cid), CommentLikeFindUnique cid uid,
                 CommentLikeDelete cid uid, PostUpdate (c_postId c) (- 1),
                 CommentLikeCount cid])"
proof -
  from assms obtain c where c: "find (\<lambda>c. c_id c = cid) (comments s) = Some c"
    by (cases "find (\<lambda>c. c_id c = cid) (comments s)")
       (auto simp: toggle_def tx_Inr)
  show ?thesis
  proof (cases "find (is_like cid uid) (commentLikes s)")
    case None
    with assms c show ?thesis
      by (auto simp: toggle_def tx_Inr COMMENT_LIKE_def like_notification_def
               split: if_splits)
  next
    case (Some l)
    with assms c show ?thesis
      by (auto simp: toggle_def tx_Inr COMMENT_LIKE_def)
  qed
qed

lemma toggle_callback_Inr:
  "toggle_callback f v uid st = (Inr r, st') \<longleftrightarrow>
     (\<exists>cid. v = String cid \<and> toggle f cid uid st = (Inr r, st'))"
  by (cases v) (auto simp: toggle_callback_def tx_Inr)

lemma transaction_Inr:
  "transaction f cb s = (Inr r, s', calls') \<longleftrightarrow>
     f Transaction = None \<and> f Commit = None
     \<and> (\<exists>calls. cb (s, [Transaction]) = (Inr r, s', calls) \<and> calls' = calls @ [Commit])"
  by (auto simp: transaction_def split: option.splits prod.splits sum.splits)

lemma transaction_Inl:
  "transaction f cb s = (Inl e, s', calls') \<Longrightarrow> s' = s"
  by (auto simp: transaction_def split: option.splits prod.splits sum.splits)

lemma catch_block_not_200: "status (fst (catch_block e)) \<noteq> 200"
  using catch_block_status [of e] by auto

lemma try_block_Inr_200:
  "try_block req f s = (Inr resp, s', calls') \<Longrightarrow> status resp = 200 \<Longrightarrow>
     \<exists>parsed commentId uid r. req_json req = Some parsed
       \<and> get_prop parsed ''commentId'' = Inr commentId \<and> truthy commentId
       \<and> authenticated req = Some uid \<and> uid \<noteq> []
       \<and> transaction f (toggle_callback f commentId uid) s = (Inr r, s', calls')
       \<and> resp = json_response (LikeBody r) 200"
  by (auto simp: try_block_def json_response_def
           split: option.splits sum.splits if_splits prod.splits)

lemma POST_ok:
  assumes "status (response (POST req f s)) = 200"
  obtains parsed cid uid r calls where
    "req_json req = Some parsed" "get_prop parsed ''commentId'' = Inr (String cid)"
    "cid \<noteq> []" "authenticated req = Some uid" "uid \<noteq> []"
    "f Transaction = None" "f Commit = None"
    "toggle f cid uid (s, [Transaction]) = (Inr r, store_after (POST req f s), calls)"
    "store_calls (POST req f s) = calls @ [Commit]"
    "response (POST req f s) = json_response (LikeBody r) 200"
proof (cases "try_block req f s")
  case (fields res s' calls')
  show ?thesis
  proof (cases res)
    case (Inl e)
    with fields assms catch_block_not_200 [of e] show ?thesis
      by (auto simp: POST_def split: prod.splits)
  next
    case (Inr resp)
    with fields assms have st: "status resp = 200" and
      sel: "store_after (POST req f s) = s'" "store_calls (POST req f s) = calls'"
        "response (POST req f s) = resp"
      by (auto simp: POST_def)
    from try_block_Inr_200 [OF fields [unfolded Inr] st]
    obtain parsed commentId uid r where h: "req_json req = Some parsed"
       "get_prop parsed ''commentId'' = Inr commentId" "truthy commentId"
       "authenticated req = Some uid" "uid \<noteq> []"
       "transaction f (toggle_callback f commentId uid) s = (Inr r, s', calls')"
       "resp = json_response (LikeBody r) 200"
      by blast
    from h(6) obtain cid calls where k: "commentId = String cid"
       "f Transaction = None" "f Commit = None"
       "toggle f cid uid (s, [Transaction]) = (Inr r, s', calls)" "calls' = calls @ [Commit]"
      by (auto simp: transaction_Inr toggle_callback_Inr)
    from h(3) k(1) have "cid \<noteq> []" by simp
    with h k sel that show ?thesis by simp
  qed
qed

lemma POST_failed_store:
  assumes "status (response (POST req f s)) \<noteq> 200"
  shows "store_after (POST req f s) = s"
proof -
  have "\<And>res s' calls'. try_block req f s = (res, s', calls') \<Longrightarrow>
          (\<exists>resp. res = Inr resp \<and> status resp = 200) \<or> s' = s"
    by (auto simp: try_block_def json_response_def dest: transaction_Inl
             split: option.splits sum.splits if_splits prod.splits)
  with assms show ?thesis
    by (cases "try_block req f s") (auto simp: POST_def split: sum.splits prod.splits)
qed


lemma catch_block_error_body: "\<exists>m. body (fst (catch_block e)) = ErrorBody m"
  by (auto simp: catch_block_def json_response_def split: thrown.splits)

lemma try_block_error_body:
  "try_block req f s = (Inr resp, s', calls') \<Longrightarrow>
     status resp = 200 \<or> (\<exists>m. body resp = ErrorBody m)"
  by (auto simp: try_block_def json_response_def
           split: option.splits sum.splits if_splits prod.splits)

lemma POST_error_body:
  assumes "status (response (POST req f s)) \<noteq> 200"
  shows "\<exists>m. body (response (POST req f s)) = ErrorBody m"
proof (cases "try_block req f s")
  case (fields res s' calls')
  show ?thesis
  proof (cases res)
    case (Inl e)
    obtain r logged where cb: "catch_block e = (r, logged)" by (cases "catch_block e")
    with catch_block_error_body [of e] obtain m where "body r = ErrorBody m" by auto
    with fields Inl cb show ?thesis by (simp add: POST_def)
  next
    case (Inr resp)
    with fields assms have "status resp \<noteq> 200" by (simp add: POST_def)
    with try_block_error_body [OF fields [unfolded Inr]]
    obtain m where "body resp = ErrorBody m" by auto
    with fields Inr show ?thesis by (simp add: POST_def)
  qed
qed

text \<open>With no fault, an existing comment and an existing post, the call succeeds.\<close>

lemma tx_bind_app: "tx_bind m k st = (case m st of (Inl e, st') \<Rightarrow> (Inl e, st') | (Inr v, st') \<Rightarrow> k v st')"
  by (simp add: tx_bind_def)

lemma find_bump:
  "find (\<lambda>p. p_id p = pid) (bump pid' d ps) =
     map_option (\<lambda>p. if pid = pid' then p\<lparr>p_engagementScore := p_engagementScore p + d\<rparr> else p)
       (find (\<lambda>p. p_id p = pid) ps)"
  by (induction ps) (auto simp: bump_def)

lemma toggle_succeeds:
  assumes nf: "\<forall>c. f c = None"
    and c: "find (\<lambda>c. c_id c = cid) (comments s) = Some c"
    and p: "find (\<lambda>p. p_id p = c_postId c) (posts s) \<noteq> None"
  shows "\<exists>r s' calls'. toggle f cid uid (s, calls) = (Inr r, s', calls')"
proof -
  have q: "\<And>c run s calls. query f c run (s, calls) =
     (case run s of Inl e \<Rightarrow> (Inl e, s, calls @ [c]) | Inr (v, s') \<Rightarrow> (Inr v, s', calls @ [c]))"
    using nf by (simp add: query_def)
  show ?thesis
  proof (cases "find (is_like cid uid) (commentLikes s)")
    case None
    with c p show ?thesis
      by (simp add: toggle_def tx_bind_app tx_return_def tx_throw_def q
            comment_findUnique_def commentLike_findUnique_def commentLike_create_def
            post_update_def notification_create_def commentLike_count_def)
  next
    case (Some l)
    with c p show ?thesis
      by (simp add: toggle_def tx_bind_app tx_return_def tx_throw_def q
            comment_findUnique_def commentLike_findUnique_def commentLike_delete_def
            post_update_def notification_create_def commentLike_count_def)
  qed
qed

lemma POST_succeeds:
  assumes nf: "\<forall>c. f c = None"
    and "req_json req = Some parsed" "get_prop parsed ''commentId'' = Inr (String cid)"
      "cid \<noteq> []" "authenticated req = Some uid" "uid \<noteq> []"
    and c: "find (\<lambda>c. c_id c = cid) (comments s) = Some c"
    and p: "find (\<lambda>p. p_id p = c_postId c) (posts s) \<noteq> None"
  shows "status (response (POST req f s)) = 200"
proof -
  from toggle_succeeds [OF nf c p]
  obtain r s' calls' where "toggle f cid uid (s, [Transaction]) = (Inr r, s', calls')"
    by blast
  with assms show ?thesis
    by (simp add: POST_def try_block_def transaction_def toggle_callback_def
          json_response_def)
qed

section \<open>Concrete runs\<close>

lemmas run_defs = POST_def try_block_def catch_block_def transaction_def toggle_callback_def
  toggle_def tx_bind_def tx_return_def tx_throw_def query_def comment_findUnique_def
  commentLike_findUnique_def commentLike_delete_def commentLike_create_def post_update_def
  notification_create_def commentLike_count_def json_response_def COMMENT_LIKE_def
  is_like_def no_faults_def like_request_def record_not_found_def unique_violation_def

lemma example_like_run:
  "POST (like_request ''C1'' ''U2'') no_faults example_store =
     \<lparr>response = \<lparr>status = 200, body = LikeBody \<lparr>liked = True, likeCount = 1\<rparr>\<rparr>,
      store_after = example_store_liked,
      store_calls = [Transaction, CommentFindUnique (String ''C1''),
        CommentLikeFindUnique ''C1'' ''U2'', CommentLikeCreate ''C1'' ''U2'',
        PostUpdate ''P1'' 1,
        NotificationCreate \<lparr>n_userId = ''U1'',
          n_message = ''Your comment received a new like.'',
          n_type = ''COMMENT_LIKE'', n_commentId = ''C1'', n_actorId = ''U2''\<rparr>,
        CommentLikeCount ''C1'', Commit],
      console_error = []\<rparr>"
  by (simp add: run_defs example_store_def example_store_liked_def)

lemma example_unlike_run:
  "POST (like_request ''C1'' ''U2'') no_faults example_store_liked =
     \<lparr>response = \<lparr>status = 200, body = LikeBody \<lparr>liked = False, likeCount = 0\<rparr>\<rparr>,
      store_after = example_store\<lparr>notifications := notifications example_store_liked\<rparr>,
      store_calls = [Transaction, CommentFindUnique (String ''C1''),
        CommentLikeFindUnique ''C1'' ''U2'', CommentLikeDelete ''C1'' ''U2'',
        PostUpdate ''P1'' (- 1), CommentLikeCount ''C1'', Commit],
      console_error = []\<rparr>"
  by (simp add: run_defs example_store_def example_store_liked_def)

lemma like_request_sel:
  "req_json (like_request cid uid) = Some (Object [(''commentId'', String cid)])"
  "get_prop (Object [(''commentId'', String cid)]) ''commentId'' = Inr (String cid)"
  "authenticated (like_request cid uid) = Some uid"
  by (simp_all add: like_request_def)

lemma find_is_like_None:
  "find (is_like cid uid) ls = None \<longleftrightarrow> \<lparr>l_commentId = cid, l_userId = uid\<rparr> \<notin> set ls"
  by (induction ls) (auto simp: is_like_def)

lemma filter_is_like_None:
  "find (is_like cid uid) ls = None \<Longrightarrow> filter (is_like cid uid) ls = []"
  by (induction ls) (auto split: if_splits)

lemma POST_ok_toggle:
  assumes "req_json req = Some parsed" "get_prop parsed ''commentId'' = Inr (String cid)"
    "authenticated req = Some uid"
    and "status (response (POST req f s)) = 200"
  obtains r calls where
    "cid \<noteq> []" "uid \<noteq> []"
    "toggle f cid uid (s, [Transaction]) = (Inr r, store_after (POST req f s), calls)"
    "store_calls (POST req f s) = calls @ [Commit]"
    "response (POST req f s) = json_response (LikeBody r) 200"
  using POST_ok [OF assms(4)] assms(1-3)
  by (metis Inr_inject jsval.inject(3) option.inject)

section \<open>The like flag and the like row\<close>

text \<open>
  C2. When a call for the comment \<open>cid\<close> by the user \<open>uid\<close> returns a like state, the
  flag \<open>liked\<close> is the negation of whether a row for \<open>(cid, uid)\<close> existed before the
  call. If it is true, exactly one row for the pair was appended; if it is false, the rows
  for the pair were deleted. In both cases the number of rows for the pair afterwards is 1
  or 0 accordingly, and a table with no duplicate row has none afterwards.
\<close>

theorem POST_liked_negates_existing:
  assumes "req_json req = Some parsed" "get_prop parsed ''commentId'' = Inr (String cid)"
    "authenticated req = Some uid"
    and "response (POST req f s) = json_response (LikeBody r) 200"
  shows "liked r = (find (is_like cid uid) (commentLikes s) = None)
     \<and> (liked r \<longrightarrow> commentLikes (store_after (POST req f s)) =
            commentLikes s @ [\<lparr>l_commentId = cid, l_userId = uid\<rparr>])
     \<and> (\<not> liked r \<longrightarrow> commentLikes (store_after (POST req f s)) =
            filter (\<lambda>l. \<not> is_like cid uid l) (commentLikes s))
     \<and> length (filter (is_like cid uid) (commentLikes (store_after (POST req f s)))) =
         (if liked r then 1 else 0)
     \<and> (distinct (commentLikes s) \<longrightarrow> distinct (commentLikes (store_after (POST req f s))))"
proof -
  from assms(4) have ok: "status (response (POST req f s)) = 200"
    by (simp add: json_response_def)
  from POST_ok_toggle [OF assms(1-3) ok] obtain r' calls where
    t: "toggle f cid uid (s, [Transaction]) = (Inr r', store_after (POST req f s), calls)"
    and "response (POST req f s) = json_response (LikeBody r') 200"
    by blast
  with assms(4) have r: "r' = r" by (simp add: json_response_def)
  from toggle_Inr [OF t [unfolded r]] have
    l: "liked r = (find (is_like cid uid) (commentLikes s) = None)"
    and a: "liked r \<Longrightarrow> commentLikes (store_after (POST req f s)) =
            commentLikes s @ [\<lparr>l_commentId = cid, l_userId = uid\<rparr>]"
    and d: "\<not> liked r \<Longrightarrow> commentLikes (store_after (POST req f s)) =
            filter (\<lambda>l. \<not> is_like cid uid l) (commentLikes s)"
    by (auto split: if_splits)
  have n: "length (filter (is_like cid uid) (commentLikes (store_after (POST req f s)))) =
         (if liked r then 1 else 0)"
  proof (cases "liked r")
    case True
    with l a filter_is_like_None [of cid uid "commentLikes s"] show ?thesis
      by (simp add: is_like_def)
  next
    case False
    with d show ?thesis by simp
  qed
  have "distinct (commentLikes s) \<Longrightarrow> distinct (commentLikes (store_after (POST req f s)))"
  proof (cases "liked r")
    case True
    assume "distinct (commentLikes s)"
    with True l a show ?thesis by (simp add: find_is_like_None)
  next
    case False
    assume "distinct (commentLikes s)"
    with False d show ?thesis by simp
  qed
  with l a d n show ?thesis by blast
qed

theorem POST_liked_negates_existing_witness:
  "response (POST (like_request ''C1'' ''U2'') no_faults example_store) =
     json_response (LikeBody \<lparr>liked = True, likeCount = 1\<rparr>) 200
   \<and> find (is_like ''C1'' ''U2'') (commentLikes example_store) = None
   \<and> distinct (commentLikes example_store)
   \<and> commentLikes (store_after (POST (like_request ''C1'' ''U2'') no_faults example_store)) =
       [\<lparr>l_commentId = ''C1'', l_userId = ''U2''\<rparr>]
   \<and> response (POST (like_request ''C1'' ''U2'') no_faults example_store_liked) =
     json_response (LikeBody \<lparr>liked = False, likeCount = 0\<rparr>) 200
   \<and> find (is_like ''C1'' ''U2'') (commentLikes example_store_liked) \<noteq> None
   \<and> commentLikes (store_after (POST (like_request ''C1'' ''U2'') no_faults example_store_liked))
       = []"
proof -
  have a: "response (POST (like_request ''C1'' ''U2'') no_faults example_store) =
     json_response (LikeBody \<lparr>liked = True, likeCount = 1\<rparr>) 200"
    by (simp add: example_like_run json_response_def)
  have b: "response (POST (like_request ''C1'' ''U2'') no_faults example_store_liked) =
     json_response (LikeBody \<lparr>liked = False, likeCount = 0\<rparr>) 200"
    by (simp add: example_unlike_run json_response_def)
  from POST_liked_negates_existing [OF like_request_sel a]
       POST_liked_negates_existing [OF like_request_sel b] a b
  show ?thesis
    by (simp add: example_store_def example_store_liked_def is_like_def)
qed


section \<open>The like count\<close>

text \<open>
  C3. The \<open>likeCount\<close> of a successful response is the number of rows for the comment
  in the committed store, and the calls show that it was counted inside the transaction,
  after the creation or deletion of the like row and just before the commit.
\<close>

theorem POST_likeCount_committed:
  assumes "req_json req = Some parsed" "get_prop parsed ''commentId'' = Inr (String cid)"
    "authenticated req = Some uid"
    and "response (POST req f s) = json_response (LikeBody r) 200"
  shows "likeCount r =
       length (filter (\<lambda>l. l_commentId l = cid) (commentLikes (store_after (POST req f s))))
     \<and> (\<exists>pre. store_calls (POST req f s) = Transaction # pre @ [CommentLikeCount cid, Commit]
          \<and> (CommentLikeCreate cid uid \<in> set pre \<or> CommentLikeDelete cid uid \<in> set pre)
          \<and> CommentLikeCount cid \<notin> set pre)"
proof -
  from assms(4) have ok: "status (response (POST req f s)) = 200"
    by (simp add: json_response_def)
  from POST_ok_toggle [OF assms(1-3) ok] obtain r' calls where
    t: "toggle f cid uid (s, [Transaction]) = (Inr r', store_after (POST req f s), calls)"
    and c: "store_calls (POST req f s) = calls @ [Commit]"
    and "response (POST req f s) = json_response (LikeBody r') 200"
    by blast
  with assms(4) have r: "r' = r" by (simp add: json_response_def)
  from toggle_Inr [OF t [unfolded r]] c show ?thesis
    by (auto split: if_splits)
qed

theorem POST_likeCount_committed_witness:
  "response (POST (like_request ''C1'' ''U2'') no_faults example_store) =
     json_response (LikeBody \<lparr>liked = True, likeCount = 1\<rparr>) 200
   \<and> length (filter (\<lambda>l. l_commentId l = ''C1'')
        (commentLikes (store_after (POST (like_request ''C1'' ''U2'') no_faults example_store))))
      = 1
   \<and> length (filter (\<lambda>l. l_commentId l = ''C1'') (commentLikes example_store)) = 0"
proof -
  have a: "response (POST (like_request ''C1'' ''U2'') no_faults example_store) =
     json_response (LikeBody \<lparr>liked = True, likeCount = 1\<rparr>) 200"
    by (simp add: example_like_run json_response_def)
  from POST_likeCount_committed [OF like_request_sel a] a
  show ?thesis by (simp add: example_store_def)
qed

section \<open>Notifications\<close>

text \<open>
  C4. For a call on an existing comment \<open>c\<close> by the user \<open>uid\<close>, the notifications
  after the call are those before it, followed by exactly one new notification when the
  call commits a new like (no row for the pair existed) and the author of the comment is
  not \<open>uid\<close>, and by nothing otherwise (the unlike path, a self-like, a failed call). The
  new notification is addressed to the author, has \<open>uid\<close> as actor, the type
  \<open>COMMENT_LIKE\<close>, and refers to the comment.
\<close>

theorem POST_notification_iff_new_like_by_other:
  assumes "req_json req = Some parsed" "get_prop parsed ''commentId'' = Inr (String cid)"
    "authenticated req = Some uid"
    and "find (\<lambda>c. c_id c = cid) (comments s) = Some c"
  shows "notifications (store_after (POST req f s)) = notifications s @
     (if status (response (POST req f s)) = 200
         \<and> find (is_like cid uid) (commentLikes s) = None \<and> c_authorId c \<noteq> uid
      then [\<lparr>n_userId = c_authorId c, n_message = ''Your comment received a new like.'',
              n_type = ''COMMENT_LIKE'', n_commentId = cid, n_actorId = uid\<rparr>]
      else [])"
proof (cases "status (response (POST req f s)) = 200")
  case True
  from POST_ok_toggle [OF assms(1-3) True] obtain r calls where
    t: "toggle f cid uid (s, [Transaction]) = (Inr r, store_after (POST req f s), calls)"
    by blast
  from assms(4) have "c_id c = cid" by (auto simp: find_Some_iff)
  with toggle_Inr [OF t] assms(4) True show ?thesis
    by (auto simp: like_notification_def split: if_splits)
next
  case False
  with POST_failed_store [OF False] show ?thesis by simp
qed

theorem POST_notification_iff_new_like_by_other_witness:
  "notifications (store_after (POST (like_request ''C1'' ''U2'') no_faults example_store)) =
     [\<lparr>n_userId = ''U1'', n_message = ''Your comment received a new like.'',
       n_type = ''COMMENT_LIKE'', n_commentId = ''C1'', n_actorId = ''U2''\<rparr>]
   \<and> notifications (store_after (POST (like_request ''C1'' ''U1'') no_faults example_store)) = []
   \<and> notifications (store_after (POST (like_request ''C1'' ''U2'') no_faults example_store_liked))
       = notifications example_store_liked"
proof -
  have c: "find (\<lambda>c. c_id c = ''C1'') (comments example_store) =
             Some \<lparr>c_id = ''C1'', c_postId = ''P1'', c_authorId = ''U1''\<rparr>"
    "find (\<lambda>c. c_id c = ''C1'') (comments example_store_liked) =
             Some \<lparr>c_id = ''C1'', c_postId = ''P1'', c_authorId = ''U1''\<rparr>"
    by (simp_all add: example_store_def example_store_liked_def)
  have st: "status (response (POST (like_request ''C1'' ''U2'') no_faults example_store)) = 200"
    by (simp add: example_like_run)
  have tabs: "notifications example_store = []" "commentLikes example_store = []"
    "find (is_like ''C1'' ''U2'') (commentLikes example_store_liked) \<noteq> None"
    by (simp_all add: example_store_def example_store_liked_def is_like_def)
  from POST_notification_iff_new_like_by_other [OF like_request_sel c(1), of "''U2''" no_faults]
       POST_notification_iff_new_like_by_other [OF like_request_sel c(1), of "''U1''" no_faults]
       POST_notification_iff_new_like_by_other [OF like_request_sel c(2), of "''U2''" no_faults]
  show ?thesis
    by (simp add: st tabs)
qed

section \<open>A comment that does not exist\<close>

text \<open>
  A commentId that names no comment is not always answered 404: without an authenticated
  user the response is 401, a commentId that is not a string (the number 5) reaches the
  store client, which rejects it, and the response is 500, the empty string is answered
  400, and a lookup that fails in the store is answered 500.
\<close>

theorem POST_no_comment_other_statuses:
  "''C9'' \<notin> set (map c_id (comments example_store))
   \<and> status (response
        (POST \<lparr>req_json = Some (Object [(''commentId'', String ''C9'')]),
               authenticated = None\<rparr> no_faults example_store)) = 401
   \<and> status (response
        (POST \<lparr>req_json = Some (Object [(''commentId'', Number 5)]),
               authenticated = Some ''U2''\<rparr> no_faults example_store)) = 500
   \<and> [] \<notin> set (map c_id (comments example_store))
   \<and> status (response
        (POST \<lparr>req_json = Some (Object [(''commentId'', String [])]),
               authenticated = Some ''U2''\<rparr> no_faults example_store)) = 400
   \<and> status (response
        (POST \<lparr>req_json = Some (Object [(''commentId'', String ''C9'')]),
               authenticated = Some ''U2''\<rparr>
          (no_faults(CommentFindUnique (String ''C9'') \<mapsto> Error ''Connection lost''))
          example_store)) = 500"
  by (simp add: run_defs example_store_def)

text \<open>
  C7, with its side conditions. A call by an authenticated user with a non-empty string
  id that names no comment, on a store that answers the lookup, gets the response 404
  \<open>Comment not found\<close>; the store is unchanged and the only calls are the lookup inside
  a transaction that is rolled back. More generally, every call that does not return 200
  leaves the store as it was.
\<close>

theorem POST_comment_not_found:
  assumes "req_json req = Some parsed" "get_prop parsed ''commentId'' = Inr (String cid)"
    "cid \<noteq> []" "authenticated req = Some uid" "uid \<noteq> []"
    and "find (\<lambda>c. c_id c = cid) (comments s) = None"
    and "f Transaction = None" "f (CommentFindUnique (String cid)) = None"
  shows "response (POST req f s) = json_response (ErrorBody ''Comment not found'') 404
     \<and> store_after (POST req f s) = s
     \<and> store_calls (POST req f s) = [Transaction, CommentFindUnique (String cid), Rollback]
     \<and> (\<forall>req' f'. status (response (POST req' f' s)) \<noteq> 200 \<longrightarrow>
           store_after (POST req' f' s) = s)"
  using assms POST_failed_store
  by (simp add: run_defs)

theorem POST_comment_not_found_witness:
  "find (\<lambda>c. c_id c = ''C9'') (comments example_store_liked) = None
   \<and> status (response (POST (like_request ''C9'' ''U2'') no_faults example_store_liked)) = 404
   \<and> store_after (POST (like_request ''C9'' ''U2'') no_faults example_store_liked)
       = example_store_liked"
  using POST_comment_not_found [OF like_request_sel(1,2) _ like_request_sel(3),
          of "''C9''" "''U2''" example_store_liked no_faults]
  by (simp add: example_store_liked_def no_faults_def json_response_def)

section \<open>Validation and authentication\<close>

text \<open>
  A request with no commentId and no authenticated user is answered 400, not 401: the
  check of the commentId comes first.
\<close>

theorem unauthenticated_missing_commentId_is_400:
  "authenticated \<lparr>req_json = Some (Object []), authenticated = None\<rparr> = None
   \<and> status (response
        (POST \<lparr>req_json = Some (Object []), authenticated = None\<rparr> no_faults example_store))
      = 400
   \<and> status (response
        (POST \<lparr>req_json = Some (Object []), authenticated = None\<rparr> no_faults example_store))
      \<noteq> 401"
  by (simp add: POST_def try_block_def json_response_def)

text \<open>
  C6, with the order of the checks. For a body that parses to a value other than
  \<^verbatim>\<open>null\<close>: when the commentId is missing or falsy (the empty string among others) the
  response is 400 \<open>Missing commentId\<close>; when the commentId is truthy and there is no
  authenticated user (none, or an empty id) the response is 401
  \<open>Authentication required\<close>; in both cases no call reaches the store client, the store
  is unchanged and nothing is logged.
\<close>

theorem POST_validation_then_authentication:
  assumes "req_json req = Some parsed" "get_prop parsed ''commentId'' = Inr commentId"
  shows "(\<not> truthy commentId \<longrightarrow>
            response (POST req f s) = json_response (ErrorBody ''Missing commentId'') 400)
     \<and> (truthy commentId \<and> (authenticated req = None \<or> authenticated req = Some []) \<longrightarrow>
            response (POST req f s) = json_response (ErrorBody ''Authentication required'') 401)
     \<and> (\<not> truthy commentId \<or> authenticated req = None \<or> authenticated req = Some [] \<longrightarrow>
            store_calls (POST req f s) = [] \<and> store_after (POST req f s) = s
            \<and> console_error (POST req f s) = [])"
  using assms by (auto simp: POST_def try_block_def)

theorem POST_validation_then_authentication_witness:
  "response (POST \<lparr>req_json = Some (Object [(''commentId'', String [])]),
                   authenticated = Some ''U2''\<rparr> no_faults example_store)
     = json_response (ErrorBody ''Missing commentId'') 400
   \<and> response (POST \<lparr>req_json = Some (Object []), authenticated = Some ''U2''\<rparr>
                 no_faults example_store)
     = json_response (ErrorBody ''Missing commentId'') 400
   \<and> response (POST \<lparr>req_json = Some (Object [(''commentId'', String ''C1'')]),
                   authenticated = None\<rparr> no_faults example_store)
     = json_response (ErrorBody ''Authentication required'') 401
   \<and> store_calls (POST \<lparr>req_json = Some (Object [(''commentId'', String ''C1'')]),
                   authenticated = None\<rparr> no_faults example_store) = []"
  using POST_validation_then_authentication
          [of "\<lparr>req_json = Some (Object [(''commentId'', String [])]),
                authenticated = Some ''U2''\<rparr>"
              "Object [(''commentId'', String [])]" "String []" no_faults example_store]
        POST_validation_then_authentication
          [of "\<lparr>req_json = Some (Object []), authenticated = Some ''U2''\<rparr>"
              "Object []" Undefined no_faults example_store]
        POST_validation_then_authentication
          [of "\<lparr>req_json = Some (Object [(''commentId'', String ''C1'')]),
                authenticated = None\<rparr>"
              "Object [(''commentId'', String ''C1'')]" "String ''C1''" no_faults example_store]
  by simp

section \<open>Referential-integrity violations\<close>

text \<open>
  C8. Let the transaction reject with the store client's classified error, of code
  \<open>code\<close> and a message other than the handler's own sentinel \<open>COMMENT_NOT_FOUND\<close>
  (which the client never produces). The response is decided by the code: 400
  \<open>Invalid comment or user reference\<close> for P2003 (a violated foreign key) and for no
  other code, 404 for P2025, and the generic 500, with the error logged, for every other
  code; the store is unchanged. Two classified errors with the same code get the same
  response whatever their messages, and an unclassified error gets 500 even when it
  carries the very message with which a P2003 error gets 400.
\<close>

theorem POST_foreign_key_violation:
  assumes "req_json req = Some parsed" "get_prop parsed ''commentId'' = Inr commentId"
    "truthy commentId" "authenticated req = Some uid" "uid \<noteq> []"
    and "transaction f (toggle_callback f commentId uid) s =
           (Inl (PrismaClientKnownRequestError code m), s', calls)"
    and "m \<noteq> ''COMMENT_NOT_FOUND''"
  shows "response (POST req f s) =
           (if code = ''P2003''
            then json_response (ErrorBody ''Invalid comment or user reference'') 400
            else if code = ''P2025''
            then json_response (ErrorBody ''Comment or post not found'') 404
            else json_response (ErrorBody ''Internal Server Error'') 500)
     \<and> (status (response (POST req f s)) = 400 \<longleftrightarrow> code = ''P2003'')
     \<and> store_after (POST req f s) = s
     \<and> console_error (POST req f s) =
         (if code = ''P2003'' \<or> code = ''P2025'' then []
          else [PrismaClientKnownRequestError code m])
     \<and> (\<forall>code m1 m2. m1 \<noteq> ''COMMENT_NOT_FOUND'' \<and> m2 \<noteq> ''COMMENT_NOT_FOUND'' \<longrightarrow>
           fst (catch_block (PrismaClientKnownRequestError code m1)) =
           fst (catch_block (PrismaClientKnownRequestError code m2)))
     \<and> (\<forall>m'. m' \<noteq> ''COMMENT_NOT_FOUND'' \<longrightarrow>
           fst (catch_block (Error m')) =
             json_response (ErrorBody ''Internal Server Error'') 500
           \<and> fst (catch_block (PrismaClientKnownRequestError ''P2003'' m')) =
             json_response (ErrorBody ''Invalid comment or user reference'') 400)"
proof -
  let ?e = "PrismaClientKnownRequestError code m"
  from assms(6) have "s' = s" by (rule transaction_Inl)
  with assms(1-6) have tb: "try_block req f s = (Inl ?e, s, calls)"
    by (simp add: try_block_def)
  have cb: "catch_block ?e =
      (if code = ''P2025''
       then (json_response (ErrorBody ''Comment or post not found'') 404, [])
       else if code = ''P2003''
       then (json_response (ErrorBody ''Invalid comment or user reference'') 400, [])
       else (json_response (ErrorBody ''Internal Server Error'') 500, [?e]))"
    using assms(7) by (simp add: catch_block_def)
  have post: "POST req f s =
      \<lparr>response = fst (catch_block ?e), store_after = s, store_calls = calls,
       console_error = snd (catch_block ?e)\<rparr>"
    by (simp add: POST_def tb split: prod.splits)
  have r: "response (POST req f s) =
           (if code = ''P2003''
            then json_response (ErrorBody ''Invalid comment or user reference'') 400
            else if code = ''P2025''
            then json_response (ErrorBody ''Comment or post not found'') 404
            else json_response (ErrorBody ''Internal Server Error'') 500)"
    unfolding post cb by simp
  have st: "status (response (POST req f s)) = 400 \<longleftrightarrow> code = ''P2003''"
    unfolding r by (simp add: json_response_def)
  have sa: "store_after (POST req f s) = s"
    unfolding post by simp
  have ce: "console_error (POST req f s) =
         (if code = ''P2003'' \<or> code = ''P2025'' then [] else [?e])"
    unfolding post cb by simp
  have ind: "\<forall>code m1 m2. m1 \<noteq> ''COMMENT_NOT_FOUND'' \<and> m2 \<noteq> ''COMMENT_NOT_FOUND'' \<longrightarrow>
           fst (catch_block (PrismaClientKnownRequestError code m1)) =
           fst (catch_block (PrismaClientKnownRequestError code m2))"
    by (simp add: catch_block_def)
  have cls: "\<forall>m'. m' \<noteq> ''COMMENT_NOT_FOUND'' \<longrightarrow>
           fst (catch_block (Error m')) =
             json_response (ErrorBody ''Internal Server Error'') 500
           \<and> fst (catch_block (PrismaClientKnownRequestError ''P2003'' m')) =
             json_response (ErrorBody ''Invalid comment or user reference'') 400"
    by (simp add: catch_block_def)
  from r st sa ce ind cls show ?thesis by (intro conjI)
qed

theorem POST_foreign_key_violation_witness:
  "response (POST (like_request ''C1'' ''U2'')
       (no_faults(CommentLikeCreate ''C1'' ''U2'' \<mapsto>
          PrismaClientKnownRequestError ''P2003'' ''Foreign key constraint violated''))
       example_store)
     = json_response (ErrorBody ''Invalid comment or user reference'') 400
   \<and> store_after (POST (like_request ''C1'' ''U2'')
       (no_faults(CommentLikeCreate ''C1'' ''U2'' \<mapsto>
          PrismaClientKnownRequestError ''P2003'' ''Foreign key constraint violated''))
       example_store) = example_store
   \<and> response (POST (like_request ''C1'' ''U2'')
       (no_faults(CommentLikeCreate ''C1'' ''U2'' \<mapsto>
          PrismaClientKnownRequestError ''P2034'' ''Foreign key constraint violated''))
       example_store)
     = json_response (ErrorBody ''Internal Server Error'') 500"
proof -
  have t: "transaction (no_faults(CommentLikeCreate ''C1'' ''U2'' \<mapsto>
                PrismaClientKnownRequestError code ''Foreign key constraint violated''))
       (toggle_callback (no_faults(CommentLikeCreate ''C1'' ''U2'' \<mapsto>
                PrismaClientKnownRequestError code ''Foreign key constraint violated''))
          (String ''C1'') ''U2'') example_store =
      (Inl (PrismaClientKnownRequestError code ''Foreign key constraint violated''),
       example_store,
       [Transaction, CommentFindUnique (String ''C1''), CommentLikeFindUnique ''C1'' ''U2'',
        CommentLikeCreate ''C1'' ''U2'', Rollback])" for code
    by (simp add: transaction_def toggle_callback_def toggle_def tx_bind_def tx_return_def
          tx_throw_def query_def comment_findUnique_def commentLike_findUnique_def
          commentLike_create_def no_faults_def is_like_def example_store_def)
  have a: "response (POST (like_request ''C1'' ''U2'')
       (no_faults(CommentLikeCreate ''C1'' ''U2'' \<mapsto>
          PrismaClientKnownRequestError ''P2003'' ''Foreign key constraint violated''))
       example_store)
     = json_response (ErrorBody ''Invalid comment or user reference'') 400
   \<and> store_after (POST (like_request ''C1'' ''U2'')
       (no_faults(CommentLikeCreate ''C1'' ''U2'' \<mapsto>
          PrismaClientKnownRequestError ''P2003'' ''Foreign key constraint violated''))
       example_store) = example_store"
    using POST_foreign_key_violation
            [OF like_request_sel(1,2) _ like_request_sel(3) _ t, of "''P2003''"]
    by simp
  have b: "response (POST (like_request ''C1'' ''U2'')
       (no_faults(CommentLikeCreate ''C1'' ''U2'' \<mapsto>
          PrismaClientKnownRequestError ''P2034'' ''Foreign key constraint violated''))
       example_store)
     = json_response (ErrorBody ''Internal Server Error'') 500"
    using POST_foreign_key_violation
            [OF like_request_sel(1,2) _ like_request_sel(3) _ t, of "''P2034''"]
    by simp
  from a b show ?thesis by (intro conjI) simp_all
qed

section \<open>Errors of the email provider\<close>

text \<open>
  C9. \<^verbatim>\<open>sendEmail\<close> is documented as logging and not propagating the errors met while
  sending. When the provider call rejects with an error that has no \<^verbatim>\<open>response\<close>
  property (a refused connection), the \<^verbatim>\<open>catch\<close> block itself throws a TypeError on
  \<^verbatim>\<open>e.response.body\<close>, and the caller sees it.
\<close>

theorem sendEmail_propagates_TypeError:
  "sendEmail (\<lambda>msg. Some (Object [(''message'', String ''connect ECONNREFUSED''),
                                    (''code'', String ''ECONNREFUSED'')]))
     ''noreply@blindapp.local'' ''user@example.com'' ''Welcome'' ''<p>Welcome</p>'' None
   = (Inl TypeError, [])"
  by (simp add: sendEmail_def)

text \<open>
  An error that carries \<^verbatim>\<open>response.body\<close> is logged and swallowed, and
  \<^verbatim>\<open>sendNodeMailerEmail\<close> swallows every error.
\<close>

lemma sendEmail_swallows_response_errors:
  "get_prop e ''response'' = Inr resp \<Longrightarrow> get_prop resp ''body'' = Inr b \<Longrightarrow>
   get_prop b ''errors'' = Inr errs \<Longrightarrow> sgMail_send = (\<lambda>msg. Some e) \<Longrightarrow>
   sendEmail sgMail_send fromEmail to subject html text = (Inr (), [errs])"
  by (simp add: sendEmail_def)

lemma sendNodeMailerEmail_returns:
  "fst (sendNodeMailerEmail verify sendMail fromEmail to subject html text) = Inr ()"
  by (simp add: sendNodeMailerEmail_def split: option.splits)

section \<open>Toggling twice\<close>

lemma bump_inverse: "bump pid (- d) (bump pid d ps) = ps" "bump pid d (bump pid (- d) ps) = ps"
  by (induction ps) (auto simp: bump_def)

lemma find_bump_None:
  "find (\<lambda>p. p_id p = pid) (bump pid' d ps) = None \<longleftrightarrow> find (\<lambda>p. p_id p = pid) ps = None"
  by (simp add: find_bump)

lemma filter_not_like_id:
  "find (is_like cid uid) ls = None \<Longrightarrow> filter (\<lambda>l. \<not> is_like cid uid l) ls = ls"
  by (induction ls) (auto split: if_splits)

lemma find_filter_not_like: "find (is_like cid uid) (filter (\<lambda>l. \<not> is_like cid uid l) ls) = None"
  by (induction ls) auto

lemma filter_like_rows:
  "filter (is_like cid uid) ls =
     replicate (length (filter (is_like cid uid) ls)) \<lparr>l_commentId = cid, l_userId = uid\<rparr>"
  by (induction ls) (auto simp: is_like_def)

lemma count_comment_split:
  "length (filter (\<lambda>l. l_commentId l = cid) ls) =
     length (filter (is_like cid uid) ls)
     + length (filter (\<lambda>l. l_commentId l = cid) (filter (\<lambda>l. \<not> is_like cid uid l) ls))"
  by (induction ls) (auto simp: is_like_def)

lemma find_like_Some_length:
  "find (is_like cid uid) ls \<noteq> None \<Longrightarrow> 0 < length (filter (is_like cid uid) ls)"
  by (induction ls) (auto split: if_splits)

text \<open>
  C1. Let a request for the comment \<open>cid\<close> by the user \<open>uid\<close> succeed on a store with
  at most one like row for the pair, and let the same request be served again on the store
  it left, with no fault of the store (or, with faults, successfully). Then the second call
  succeeds and reports the original like state and the original count of likes of the
  comment; the rows of the pair, the set of like rows, the count for the comment and the
  whole table of posts (so every engagement score) are as before the first call.
\<close>

theorem toggle_twice_restores:
  assumes req: "req_json req = Some parsed" "get_prop parsed ''commentId'' = Inr (String cid)"
      "authenticated req = Some uid"
    and uniq: "length (filter (is_like cid uid) (commentLikes s)) \<le> 1"
    and s1: "s1 = store_after (POST req f1 s)"
    and first: "status (response (POST req f1 s)) = 200"
    and second: "status (response (POST req f2 s1)) = 200 \<or> (\<forall>c. f2 c = None)"
  shows "response (POST req f2 s1) =
       json_response (LikeBody
         \<lparr>liked = (find (is_like cid uid) (commentLikes s) \<noteq> None),
          likeCount = length (filter (\<lambda>l. l_commentId l = cid) (commentLikes s))\<rparr>) 200
     \<and> filter (is_like cid uid) (commentLikes (store_after (POST req f2 s1))) =
         filter (is_like cid uid) (commentLikes s)
     \<and> set (commentLikes (store_after (POST req f2 s1))) = set (commentLikes s)
     \<and> length (filter (\<lambda>l. l_commentId l = cid) (commentLikes (store_after (POST req f2 s1))))
         = length (filter (\<lambda>l. l_commentId l = cid) (commentLikes s))
     \<and> posts (store_after (POST req f2 s1)) = posts s
     \<and> (\<forall>p. engagementScore (store_after (POST req f2 s1)) p = engagementScore s p)"
proof -
  let ?row = "\<lparr>l_commentId = cid, l_userId = uid\<rparr>"
  let ?L = "commentLikes s"
  let ?s2 = "store_after (POST req f2 s1)"
  from POST_ok_toggle [OF req first] obtain r1 calls1 where
    ne: "cid \<noteq> []" "uid \<noteq> []"
    and t1: "toggle f1 cid uid (s, [Transaction]) = (Inr r1, s1, calls1)"
    unfolding s1 by blast
  from toggle_Inr [OF t1] obtain c where
    c: "find (\<lambda>c. c_id c = cid) (comments s) = Some c"
    and p: "find (\<lambda>p. p_id p = c_postId c) (posts s) \<noteq> None"
    and cs: "comments s1 = comments s"
    and l1: "liked r1 = (find (is_like cid uid) ?L = None)"
    and like1: "liked r1 \<Longrightarrow> commentLikes s1 = ?L @ [?row]
                  \<and> posts s1 = bump (c_postId c) 1 (posts s)"
    and unlike1: "\<not> liked r1 \<Longrightarrow> commentLikes s1 = filter (\<lambda>l. \<not> is_like cid uid l) ?L
                  \<and> posts s1 = bump (c_postId c) (- 1) (posts s)"
    by (auto split: if_splits)
  have c1: "find (\<lambda>c. c_id c = cid) (comments s1) = Some c" using c cs by simp
  have p1: "find (\<lambda>p. p_id p = c_postId c) (posts s1) \<noteq> None"
    using p like1 unlike1 by (cases "liked r1") (simp_all add: find_bump_None)
  have ok2: "status (response (POST req f2 s1)) = 200"
    using second POST_succeeds [OF _ req(1,2) ne(1) req(3) ne(2) c1 p1] by blast
  from POST_ok_toggle [OF req ok2] obtain r2 calls2 where
    t2: "toggle f2 cid uid (s1, [Transaction]) = (Inr r2, ?s2, calls2)"
    and resp2: "response (POST req f2 s1) = json_response (LikeBody r2) 200"
    by blast
  from toggle_Inr [OF t2] c1 have
    n2: "likeCount r2 = length (filter (\<lambda>l. l_commentId l = cid) (commentLikes ?s2))"
    and l2: "liked r2 = (find (is_like cid uid) (commentLikes s1) = None)"
    and like2: "liked r2 \<Longrightarrow> commentLikes ?s2 = commentLikes s1 @ [?row]
                  \<and> posts ?s2 = bump (c_postId c) 1 (posts s1)"
    and unlike2: "\<not> liked r2 \<Longrightarrow>
                  commentLikes ?s2 = filter (\<lambda>l. \<not> is_like cid uid l) (commentLikes s1)
                  \<and> posts ?s2 = bump (c_postId c) (- 1) (posts s1)"
    by (auto split: if_splits)
  have tabs: "liked r2 = (\<not> liked r1)
      \<and> filter (is_like cid uid) (commentLikes ?s2) = filter (is_like cid uid) ?L
      \<and> set (commentLikes ?s2) = set ?L
      \<and> length (filter (\<lambda>l. l_commentId l = cid) (commentLikes ?s2))
         = length (filter (\<lambda>l. l_commentId l = cid) ?L)
      \<and> posts ?s2 = posts s"
  proof (cases "liked r1")
    case True
    with l1 have none: "find (is_like cid uid) ?L = None" by simp
    from True like1 have s1l: "commentLikes s1 = ?L @ [?row]"
      and s1p: "posts s1 = bump (c_postId c) 1 (posts s)" by simp_all
    from s1l l2 have nl2: "\<not> liked r2" by (simp add: find_is_like_None)
    from unlike2 [OF nl2] s1l s1p filter_not_like_id [OF none]
    have "commentLikes ?s2 = ?L" "posts ?s2 = posts s"
      by (simp_all add: is_like_def bump_inverse)
    with True nl2 show ?thesis by simp
  next
    case False
    with l1 have some: "find (is_like cid uid) ?L \<noteq> None" by simp
    from False unlike1 have s1l: "commentLikes s1 = filter (\<lambda>l. \<not> is_like cid uid l) ?L"
      and s1p: "posts s1 = bump (c_postId c) (- 1) (posts s)" by simp_all
    from s1l l2 have li2: "liked r2" by (simp add: find_filter_not_like)
    from like2 [OF li2] s1l s1p
    have s2l: "commentLikes ?s2 = filter (\<lambda>l. \<not> is_like cid uid l) ?L @ [?row]"
      and s2p: "posts ?s2 = posts s"
      by (simp_all add: bump_inverse)
    from find_like_Some_length [OF some] uniq
    have one: "length (filter (is_like cid uid) ?L) = 1" by linarith
    with filter_like_rows [of cid uid ?L] have rows: "filter (is_like cid uid) ?L = [?row]"
      by simp
    have a: "filter (is_like cid uid) (commentLikes ?s2) = filter (is_like cid uid) ?L"
      by (simp add: s2l rows) (simp add: is_like_def)
    from some have "?row \<in> set ?L" by (simp add: find_is_like_None)
    moreover have "\<And>l. is_like cid uid l \<Longrightarrow> l = ?row" by (simp add: is_like_def)
    ultimately have b: "set (commentLikes ?s2) = set ?L" by (auto simp: s2l)
    have d: "length (filter (\<lambda>l. l_commentId l = cid) (commentLikes ?s2))
         = length (filter (\<lambda>l. l_commentId l = cid) ?L)"
      using count_comment_split [of cid ?L uid] one by (simp add: s2l)
    from False li2 a b d s2p show ?thesis by simp
  qed
  have "r2 = \<lparr>liked = (find (is_like cid uid) ?L \<noteq> None),
          likeCount = length (filter (\<lambda>l. l_commentId l = cid) ?L)\<rparr>"
    using tabs l1 n2 by simp
  with resp2 tabs show ?thesis by (simp add: engagementScore_def)
qed

theorem toggle_twice_restores_witness:
  "status (response (POST (like_request ''C1'' ''U2'') no_faults example_store)) = 200
   \<and> response (POST (like_request ''C1'' ''U2'') no_faults example_store_liked) =
       json_response (LikeBody \<lparr>liked = False, likeCount = 0\<rparr>) 200
   \<and> posts (store_after (POST (like_request ''C1'' ''U2'') no_faults example_store_liked))
       = posts example_store
   \<and> engagementScore
        (store_after (POST (like_request ''C1'' ''U2'') no_faults example_store_liked)) ''P1''
       = Some 5"
proof -
  have u: "length (filter (is_like ''C1'' ''U2'') (commentLikes example_store)) \<le> 1"
    by (simp add: example_store_def)
  have s1: "example_store_liked =
       store_after (POST (like_request ''C1'' ''U2'') no_faults example_store)"
    by (simp add: example_like_run)
  have first: "status (response (POST (like_request ''C1'' ''U2'') no_faults example_store))
       = 200"
    by (simp add: example_like_run)
  have second: "status (response (POST (like_request ''C1'' ''U2'') no_faults
       example_store_liked)) = 200 \<or> (\<forall>c. no_faults c = None)"
    by (simp add: no_faults_def)
  have e: "find (is_like ''C1'' ''U2'') (commentLikes example_store) = None"
    "length (filter (\<lambda>l. l_commentId l = ''C1'') (commentLikes example_store)) = 0"
    "engagementScore example_store ''P1'' = Some 5"
    by (simp_all add: example_store_def engagementScore_def)
  from toggle_twice_restores [OF like_request_sel u s1 first second] first e
  show ?thesis by simp
qed

section \<open>The engagement score over a sequence of requests\<close>

lemma POST_comments: "comments (store_after (POST req f s)) = comments s"
proof (cases "status (response (POST req f s)) = 200")
  case True
  show ?thesis
  proof (rule POST_ok [OF True])
    fix cid uid r calls
    assume "toggle f cid uid (s, [Transaction]) = (Inr r, store_after (POST req f s), calls)"
    from toggle_Inr [OF this] show ?thesis by (elim exE conjE) assumption
  qed
next
  case False
  then show ?thesis by (simp add: POST_failed_store)
qed

lemma targets_post_POST:
  "targets_post (store_after (POST req f s)) pid req' = targets_post s pid req'"
  unfolding targets_post_def POST_comments by (rule refl)

lemma targets_postD:
  assumes "targets_post s pid req"
  obtains parsed cid c where "req_json req = Some parsed"
    "get_prop parsed ''commentId'' = Inr (String cid)"
    "find (\<lambda>c. c_id c = cid) (comments s) = Some c" "c_postId c = pid"
proof -
  from assms obtain parsed where a: "req_json req = Some parsed"
    by (cases "req_json req") (simp_all add: targets_post_def)
  with assms obtain v where b: "get_prop parsed ''commentId'' = Inr v"
    by (cases "get_prop parsed ''commentId''") (simp_all add: targets_post_def)
  with a assms obtain cid where v: "v = String cid"
    by (cases v) (simp_all add: targets_post_def)
  with a b assms obtain c where "find (\<lambda>c. c_id c = cid) (comments s) = Some c"
    "c_postId c = pid"
    by (cases "find (\<lambda>c. c_id c = cid) (comments s)") (simp_all add: targets_post_def)
  with a b v that show ?thesis by simp
qed

lemma POST_score_step:
  assumes tp: "targets_post s pid req"
  shows "engagementScore (store_after (POST req f s)) pid =
           map_option (\<lambda>n. n + step_delta (POST req f s)) (engagementScore s pid)
     \<and> (\<forall>r. body (response (POST req f s)) = LikeBody r \<longrightarrow>
          (\<exists>cid uid. filter is_like_or_score_write (store_calls (POST req f s)) =
             (if liked r then [CommentLikeCreate cid uid, PostUpdate pid 1]
              else [CommentLikeDelete cid uid, PostUpdate pid (- 1)])))"
proof (cases "status (response (POST req f s)) = 200")
  case True
  from targets_postD [OF tp] obtain parsed cid c where
    rq: "req_json req = Some parsed" "get_prop parsed ''commentId'' = Inr (String cid)"
    and c: "find (\<lambda>c. c_id c = cid) (comments s) = Some c" "c_postId c = pid"
    by blast
  have "\<exists>parsed' cid' uid r calls.
      req_json req = Some parsed' \<and> get_prop parsed' ''commentId'' = Inr (String cid')
      \<and> toggle f cid' uid (s, [Transaction]) = (Inr r, store_after (POST req f s), calls)
      \<and> store_calls (POST req f s) = calls @ [Commit]
      \<and> response (POST req f s) = json_response (LikeBody r) 200"
  proof (rule POST_ok [OF True])
    fix parsed' cid' uid r calls
    assume "req_json req = Some parsed'" "get_prop parsed' ''commentId'' = Inr (String cid')"
      "toggle f cid' uid (s, [Transaction]) = (Inr r, store_after (POST req f s), calls)"
      "store_calls (POST req f s) = calls @ [Commit]"
      "response (POST req f s) = json_response (LikeBody r) 200"
    then show ?thesis by (intro exI conjI)
  qed
  then obtain parsed' cid' uid r calls where
    rq': "req_json req = Some parsed'" "get_prop parsed' ''commentId'' = Inr (String cid')"
    and t': "toggle f cid' uid (s, [Transaction]) = (Inr r, store_after (POST req f s), calls)"
    and sc: "store_calls (POST req f s) = calls @ [Commit]"
    and rs: "response (POST req f s) = json_response (LikeBody r) 200"
    by (elim exE conjE)
  from rq rq' have "cid' = cid" by simp
  with t' have
    t: "toggle f cid uid (s, [Transaction]) = (Inr r, store_after (POST req f s), calls)"
    by simp
  from rs have b: "body (response (POST req f s)) = LikeBody r"
    by (simp add: json_response_def)
  from toggle_Inr [OF t] c have
    like: "liked r \<Longrightarrow> posts (store_after (POST req f s)) = bump pid 1 (posts s)
        \<and> filter is_like_or_score_write calls = [CommentLikeCreate cid uid, PostUpdate pid 1]"
    and unlike: "\<not> liked r \<Longrightarrow> posts (store_after (POST req f s)) = bump pid (- 1) (posts s)
        \<and> filter is_like_or_score_write calls = [CommentLikeDelete cid uid, PostUpdate pid (- 1)]"
    by (auto split: if_splits)
  show ?thesis
  proof (cases "liked r")
    case True
    with like b sc show ?thesis
      by (auto simp: engagementScore_def find_bump step_delta_def is_like_response_def
            option.map_comp comp_def)
  next
    case False
    with unlike b sc show ?thesis
      by (auto simp: engagementScore_def find_bump step_delta_def is_like_response_def
            option.map_comp comp_def)
  qed
next
  case False
  from POST_error_body [OF False] obtain m where
    "body (response (POST req f s)) = ErrorBody m" by blast
  with POST_failed_store [OF False] show ?thesis
    by (simp add: step_delta_def is_like_response_def option.map_ident)
qed


lemma likes_Cons: "int (likes (h # hs)) - int (unlikes (h # hs)) =
    step_delta h + (int (likes hs) - int (unlikes hs))"
  by (simp add: likes_def unlikes_def step_delta_def)

text \<open>
  C5. Serve any sequence of requests, each naming a comment of the post \<open>pid\<close>, one after
  the other. The engagement score of the post at the end is its score at the start plus
  the number of responses that report a like minus the number that report an unlike (times
  the weight 1); requests that fail count for nothing. In every call that returns a like
  state, the calls that write a like row or a score are exactly two: the creation of the
  row with one increment by 1 of that post, or the deletion of the row with one decrement
  by 1.
\<close>

theorem engagementScore_net_change:
  assumes "\<forall>(req, f) \<in> set rs. targets_post s pid req"
    and "serve rs s = (hs, s')"
  shows "engagementScore s' pid =
           map_option (\<lambda>n. n + (int (likes hs) - int (unlikes hs))) (engagementScore s pid)
     \<and> (\<forall>h \<in> set hs. \<forall>r. body (response h) = LikeBody r \<longrightarrow>
          (\<exists>cid uid. filter is_like_or_score_write (store_calls h) =
             (if liked r then [CommentLikeCreate cid uid, PostUpdate pid 1]
              else [CommentLikeDelete cid uid, PostUpdate pid (- 1)])))"
  using assms
proof (induction rs arbitrary: s hs s')
  case Nil
  then show ?case by (simp add: likes_def unlikes_def option.map_ident)
next
  case (Cons a rs)
  obtain req f where a: "a = (req, f)" by (cases a)
  let ?h = "POST req f s"
  obtain hs1 s1 where rest: "serve rs (store_after ?h) = (hs1, s1)"
    by (cases "serve rs (store_after ?h)")
  with Cons.prems(2) a have hs: "hs = ?h # hs1" and s': "s' = s1"
    by (simp_all add: Let_def)
  from Cons.prems(1) a have tp: "targets_post s pid req"
    and tps: "\<forall>(req, f) \<in> set rs. targets_post (store_after ?h) pid req"
    by (auto simp: targets_post_POST)
  from Cons.IH [OF tps rest] have
    ih1: "engagementScore s1 pid =
           map_option (\<lambda>n. n + (int (likes hs1) - int (unlikes hs1)))
             (engagementScore (store_after ?h) pid)"
    and ih2: "\<forall>h \<in> set hs1. \<forall>r. body (response h) = LikeBody r \<longrightarrow>
          (\<exists>cid uid. filter is_like_or_score_write (store_calls h) =
             (if liked r then [CommentLikeCreate cid uid, PostUpdate pid 1]
              else [CommentLikeDelete cid uid, PostUpdate pid (- 1)]))"
    by simp_all
  from POST_score_step [OF tp, of f] have
    st1: "engagementScore (store_after ?h) pid =
           map_option (\<lambda>n. n + step_delta ?h) (engagementScore s pid)"
    and st2: "\<forall>r. body (response ?h) = LikeBody r \<longrightarrow>
          (\<exists>cid uid. filter is_like_or_score_write (store_calls ?h) =
             (if liked r then [CommentLikeCreate cid uid, PostUpdate pid 1]
              else [CommentLikeDelete cid uid, PostUpdate pid (- 1)]))"
    by simp_all
  have "engagementScore s' pid =
           map_option (\<lambda>n. n + (int (likes hs) - int (unlikes hs))) (engagementScore s pid)"
    unfolding s' hs ih1 st1 likes_Cons
    by (cases "engagementScore s pid") simp_all
  moreover from ih2 st2 have "\<forall>h \<in> set hs. \<forall>r. body (response h) = LikeBody r \<longrightarrow>
          (\<exists>cid uid. filter is_like_or_score_write (store_calls h) =
             (if liked r then [CommentLikeCreate cid uid, PostUpdate pid 1]
              else [CommentLikeDelete cid uid, PostUpdate pid (- 1)]))"
    unfolding hs by simp
  ultimately show ?case by blast
qed


theorem engagementScore_net_change_witness:
  "targets_post example_store ''P1'' (like_request ''C1'' ''U2'')
   \<and> engagementScore example_store ''P1'' = Some 5
   \<and> likes (fst (serve [(like_request ''C1'' ''U2'', no_faults),
                         (like_request ''C1'' ''U2'', no_faults)] example_store)) = 1
   \<and> unlikes (fst (serve [(like_request ''C1'' ''U2'', no_faults),
                           (like_request ''C1'' ''U2'', no_faults)] example_store)) = 1
   \<and> engagementScore (snd (serve [(like_request ''C1'' ''U2'', no_faults),
                         (like_request ''C1'' ''U2'', no_faults)] example_store)) ''P1''
       = Some 5"
proof -
  let ?rs = "[(like_request ''C1'' ''U2'', no_faults), (like_request ''C1'' ''U2'', no_faults)]"
  let ?h1 = "POST (like_request ''C1'' ''U2'') no_faults example_store"
  let ?h2 = "POST (like_request ''C1'' ''U2'') no_faults example_store_liked"
  have sv: "serve ?rs example_store = ([?h1, ?h2], store_after ?h2)"
    by (simp add: Let_def example_like_run)
  have tp: "targets_post example_store ''P1'' (like_request ''C1'' ''U2'')"
    by (simp add: targets_post_def like_request_def example_store_def)
  then have tps: "\<forall>(req, f) \<in> set ?rs. targets_post example_store ''P1'' req"
    by simp
  have sc: "engagementScore example_store ''P1'' = Some 5"
    by (simp add: engagementScore_def example_store_def)
  have ls: "likes [?h1, ?h2] = 1" "unlikes [?h1, ?h2] = 1"
    by (simp_all add: likes_def unlikes_def is_like_response_def example_like_run
          example_unlike_run)
  from engagementScore_net_change [OF tps sv]
  have "engagementScore (store_after ?h2) ''P1'' = Some 5"
    by (simp add: sc ls)
  with tp sc ls show ?thesis
    unfolding sv fst_conv snd_conv by (intro conjI)
qed

end
